theory Spec2Isabelle
  imports Complex_Main
begin

section \<open>Floating-point values of the notebook\<close>

text \<open>
  The notebook \<^verbatim>\<open>option_greeks.ipynb\<close> computes with Python floats and numpy's
  \<^verbatim>\<open>float64\<close>. A value is a finite number, one of the two infinities, or NaN; \<open>Fin 0\<close>
  is \<^verbatim>\<open>+0.0\<close> and \<open>NegZero\<close> is \<^verbatim>\<open>-0.0\<close>. The special values follow IEEE 754 as numpy
  applies it with its default error state (a warning is printed, no exception is
  raised): \<^verbatim>\<open>x / 0.0\<close> is an infinity or NaN, \<^verbatim>\<open>np.sqrt\<close> of a negative number is NaN,
  \<^verbatim>\<open>np.log(0.0)\<close> is \<^verbatim>\<open>-inf\<close>.

  The range of the format is part of the model. A product, a quotient or an exponential
  whose exact value has a magnitude of \<open>ovf\<close> or more is an infinity, and one whose
  exact value is not zero but has a magnitude of \<open>unf\<close> or less is a zero; a sum
  overflows in the same way. \<open>ovf\<close> is the least magnitude that rounds to an infinity
  (half an ulp above the largest float) and \<open>unf\<close> the greatest that rounds to zero
  (half the least subnormal). Between the two bounds a result is kept as the real
  number it is: the rounding to 53 bits is the one part of the arithmetic that the
  model leaves out.
\<close>

datatype float64 = Fin real | NegZero | PInf | NInf | NaN

definition ovf :: real where
  "ovf = 2 ^ 1024 - 2 ^ 970"

definition unf :: real where
  "unf = 1 / 2 ^ 1075"

fun is_finite :: "float64 \<Rightarrow> bool" where
  "is_finite (Fin x) = True"
| "is_finite NegZero = True"
| "is_finite PInf = False"
| "is_finite NInf = False"
| "is_finite NaN = False"

fun is_inf :: "float64 \<Rightarrow> bool" where
  "is_inf PInf = True"
| "is_inf NInf = True"
| "is_inf (Fin x) = False"
| "is_inf NegZero = False"
| "is_inf NaN = False"

text \<open>The number a finite value stands for (0 at the other values, where it is not read).\<close>

fun val :: "float64 \<Rightarrow> real" where
  "val (Fin x) = x"
| "val NegZero = 0"
| "val PInf = 0"
| "val NInf = 0"
| "val NaN = 0"

fun is_zero :: "float64 \<Rightarrow> bool" where
  "is_zero (Fin x) = (x = 0)"
| "is_zero NegZero = True"
| "is_zero PInf = False"
| "is_zero NInf = False"
| "is_zero NaN = False"

fun signbit :: "float64 \<Rightarrow> bool" where
  "signbit (Fin x) = (x < 0)"
| "signbit NegZero = True"
| "signbit PInf = False"
| "signbit NInf = True"
| "signbit NaN = False"

text \<open>A finite result with a given sign: the sign only shows on a zero.\<close>

definition finite_of :: "bool \<Rightarrow> real \<Rightarrow> float64" where
  "finite_of s x = (if x = 0 \<and> s then NegZero else Fin x)"

definition inf_of :: "bool \<Rightarrow> float64" where
  "inf_of s = (if s then NInf else PInf)"

text \<open>
  The float of an operation whose exact result is \<open>x\<close>; \<open>s\<close> is the sign the operation
  gives to an exact zero. An overflow is an infinity of the sign of \<open>x\<close>, an underflow a
  zero of the sign of \<open>x\<close>.
\<close>

definition fl :: "bool \<Rightarrow> real \<Rightarrow> float64" where
  "fl s x =
     (if ovf \<le> \<bar>x\<bar> then inf_of (x < 0)
      else if x = 0 then finite_of s 0
      else if \<bar>x\<bar> \<le> unf then finite_of (x < 0) 0
      else Fin x)"

text \<open>What a test reads off a result: the real number, or nothing at \<^verbatim>\<open>inf\<close> and \<^verbatim>\<open>nan\<close>.\<close>

definition real_of :: "float64 \<Rightarrow> real option" where
  "real_of a = (if is_finite a then Some (val a) else None)"

text \<open>
  A sum of two floats is a multiple of the least subnormal, so it is zero only when it
  is exactly zero: addition overflows and never underflows.
\<close>

instantiation float64 :: "{uminus, plus, minus, times, inverse}"
begin

definition uminus_float64 :: "float64 \<Rightarrow> float64" where
  "- (a :: float64) = (case a of
            Fin x \<Rightarrow> finite_of (0 \<le> x) (- x)
          | NegZero \<Rightarrow> Fin 0
          | PInf \<Rightarrow> NInf
          | NInf \<Rightarrow> PInf
          | NaN \<Rightarrow> NaN)"

definition plus_float64 :: "float64 \<Rightarrow> float64 \<Rightarrow> float64" where
  "a + b =
     (if a = NaN \<or> b = NaN then NaN
      else if is_inf a then (if is_inf b \<and> a \<noteq> b then NaN else a)
      else if is_inf b then b
      else if ovf \<le> \<bar>val a + val b\<bar> then inf_of (val a + val b < 0)
      else finite_of (a = NegZero \<and> b = NegZero) (val a + val b))"

definition minus_float64 :: "float64 \<Rightarrow> float64 \<Rightarrow> float64" where
  "(a :: float64) - b = a + (- b)"

definition times_float64 :: "float64 \<Rightarrow> float64 \<Rightarrow> float64" where
  "a * b =
     (if a = NaN \<or> b = NaN then NaN
      else if is_inf a \<or> is_inf b then
        (if is_zero a \<or> is_zero b then NaN else inf_of (signbit a \<noteq> signbit b))
      else fl (signbit a \<noteq> signbit b) (val a * val b))"

definition divide_float64 :: "float64 \<Rightarrow> float64 \<Rightarrow> float64" where
  "a div b =
     (if a = NaN \<or> b = NaN then NaN
      else if is_inf a then (if is_inf b then NaN else inf_of (signbit a \<noteq> signbit b))
      else if is_inf b then finite_of (signbit a \<noteq> signbit b) 0
      else if is_zero b then (if is_zero a then NaN else inf_of (signbit a \<noteq> signbit b))
      else fl (signbit a \<noteq> signbit b) (val a / val b))"

definition inverse_float64 :: "float64 \<Rightarrow> float64" where
  "inverse (a :: float64) = Fin 1 div a"

instance ..

end

text \<open>
  \<^verbatim>\<open>np.sqrt\<close>, \<^verbatim>\<open>np.log\<close> and \<^verbatim>\<open>np.exp\<close> on a scalar. The square root and the logarithm of
  a float lie well inside the range; \<^verbatim>\<open>np.exp\<close> overflows to \<^verbatim>\<open>inf\<close> (above about 709.78)
  and underflows to \<^verbatim>\<open>0.0\<close> (below about -745.13).
\<close>

fun np_sqrt :: "float64 \<Rightarrow> float64" where
  "np_sqrt (Fin x) = (if x < 0 then NaN else Fin (sqrt x))"
| "np_sqrt NegZero = NegZero"
| "np_sqrt PInf = PInf"
| "np_sqrt NInf = NaN"
| "np_sqrt NaN = NaN"

fun np_log :: "float64 \<Rightarrow> float64" where
  "np_log (Fin x) = (if x < 0 then NaN else if x = 0 then NInf else Fin (ln x))"
| "np_log NegZero = NInf"
| "np_log PInf = PInf"
| "np_log NInf = NaN"
| "np_log NaN = NaN"

fun np_exp :: "float64 \<Rightarrow> float64" where
  "np_exp (Fin x) = fl False (exp x)"
| "np_exp NegZero = Fin 1"
| "np_exp PInf = PInf"
| "np_exp NInf = Fin 0"
| "np_exp NaN = NaN"

section \<open>Python errors, true division and power\<close>

datatype error = ZeroDivisionError | OverflowError | NameError string | UnboundLocalError string

text \<open>
  The arguments of the functions are Python floats, as the notebook passes them
  (\<^verbatim>\<open>S = 819.42\<close>, \<^verbatim>\<open>sigma = 0.6966\<close>). Two operations of the notebook have Python floats
  on both sides and can raise. \<^verbatim>\<open>S/K\<close> in \<^verbatim>\<open>d\<close> raises \<^verbatim>\<open>ZeroDivisionError\<close> on a zero
  divisor of either sign, and overflows silently. \<^verbatim>\<open>x ** 2\<close> (\<^verbatim>\<open>sigma**2\<close> in \<^verbatim>\<open>d\<close>,
  \<^verbatim>\<open>S**2\<close> in \<^verbatim>\<open>gamma\<close>) raises \<^verbatim>\<open>OverflowError\<close> when the square of a finite number
  overflows, and underflows silently; the square of an infinity is \<^verbatim>\<open>inf\<close>. Python's
  \<^verbatim>\<open>+\<close>, \<^verbatim>\<open>-\<close> and \<^verbatim>\<open>*\<close> on floats never raise, and every other division of the notebook
  has a numpy scalar as divisor: they follow the operations above.
\<close>

definition truediv :: "float64 \<Rightarrow> float64 \<Rightarrow> error + float64" where
  "truediv a b = (if is_zero b then Inl ZeroDivisionError else Inr (a / b))"

definition pow2 :: "float64 \<Rightarrow> error + float64" where
  "pow2 a =
     (if is_finite a \<and> ovf \<le> val a * val a then Inl OverflowError else Inr (a * a))"

section \<open>The auxiliary quantities\<close>

text \<open>
  \<^verbatim>\<open>
  def d(sigma, S, K, r, t):
      d1 = 1 / (sigma * np.sqrt(t)) * ( np.log(S/K) + (r + sigma**2/2) * t)
      d2 = d1 - sigma * np.sqrt(t)
      return d1, d2
  \<close>
  Python evaluates the operands left to right. Two operations can raise, \<^verbatim>\<open>S/K\<close> first
  and \<^verbatim>\<open>sigma**2\<close> after it; nothing that runs before them has an effect, so the model
  tests them first, in this order.
\<close>

definition d :: "float64 \<Rightarrow> float64 \<Rightarrow> float64 \<Rightarrow> float64 \<Rightarrow> float64 \<Rightarrow> error + float64 \<times> float64" where
  "d sigma S K r t =
     (case truediv S K of
        Inl e \<Rightarrow> Inl e
      | Inr q \<Rightarrow>
          (case pow2 sigma of
             Inl e \<Rightarrow> Inl e
           | Inr sq \<Rightarrow>
               (let d1 = Fin 1 / (sigma * np_sqrt t) * (np_log q + (r + sq / Fin 2) * t);
                    d2 = d1 - sigma * np_sqrt t
                in Inr (d1, d2))))"

section \<open>The normal distribution\<close>

text \<open>
  \<^verbatim>\<open>from scipy.stats import norm\<close>: the density \<^verbatim>\<open>norm.pdf\<close> and the cumulative
  distribution \<^verbatim>\<open>norm.cdf\<close> come from scipy and are not part of the repository. They are
  taken as a parameter: \<open>cdf n x\<close> and \<open>pdf n x\<close> are the floats scipy returns at the
  finite float \<open>x\<close>. At the special values scipy returns \<^verbatim>\<open>norm.cdf(inf) = 1.0\<close>,
  \<^verbatim>\<open>norm.cdf(-inf) = 0.0\<close>, \<^verbatim>\<open>norm.pdf(inf) = 0.0\<close>, \<^verbatim>\<open>norm.pdf(-inf) = 0.0\<close> and NaN at
  NaN.
\<close>

record norm_dist =
  cdf :: "real \<Rightarrow> real"
  pdf :: "real \<Rightarrow> real"

fun norm_cdf :: "norm_dist \<Rightarrow> float64 \<Rightarrow> float64" where
  "norm_cdf n (Fin x) = Fin (cdf n x)"
| "norm_cdf n NegZero = Fin (cdf n 0)"
| "norm_cdf n PInf = Fin 1"
| "norm_cdf n NInf = Fin 0"
| "norm_cdf n NaN = NaN"

fun norm_pdf :: "norm_dist \<Rightarrow> float64 \<Rightarrow> float64" where
  "norm_pdf n (Fin x) = Fin (pdf n x)"
| "norm_pdf n NegZero = Fin (pdf n 0)"
| "norm_pdf n PInf = Fin 0"
| "norm_pdf n NInf = Fin 0"
| "norm_pdf n NaN = NaN"

text \<open>
  A concrete distribution for instantiating what is assumed of \<open>cdf\<close>: the uniform
  distribution on the interval from -2 to 2, which is symmetric about 0 as the normal
  distribution is.
\<close>

definition uniform_dist :: norm_dist where
  "uniform_dist =
     \<lparr>cdf = (\<lambda>x. max 0 (min 1 (1 / 2 + x / 4))),
      pdf = (\<lambda>x. if - 2 \<le> x \<and> x \<le> 2 then 1 / 4 else 0)\<rparr>"

section \<open>The pricer\<close>

text \<open>
  \<^verbatim>\<open>
  def call_price(sigma, S, K, r, t, d1, d2):
      C = norm.cdf(d1) * S - norm.cdf(d2) * K * np.exp(-r * t)
      return C

  def put_price(sigma, S, K, r, t, d1, d2):
      P = -norm.cdf(-d1) * S + norm.cdf(-d2) * K * np.exp(-r * t)
      return P
  \<close>
\<close>

definition call_price ::
  "norm_dist \<Rightarrow> float64 \<Rightarrow> float64 \<Rightarrow> float64 \<Rightarrow> float64 \<Rightarrow> float64 \<Rightarrow> float64 \<Rightarrow> float64 \<Rightarrow> float64" where
  "call_price n sigma S K r t d1 d2 =
     norm_cdf n d1 * S - norm_cdf n d2 * K * np_exp (- r * t)"

definition put_price ::
  "norm_dist \<Rightarrow> float64 \<Rightarrow> float64 \<Rightarrow> float64 \<Rightarrow> float64 \<Rightarrow> float64 \<Rightarrow> float64 \<Rightarrow> float64 \<Rightarrow> float64" where
  "put_price n sigma S K r t d1 d2 =
     - norm_cdf n (- d1) * S + norm_cdf n (- d2) * K * np_exp (- r * t)"

section \<open>The Greeks\<close>

text \<open>
  The names bound at the top level of the notebook, as far as the functions read them:
  a name is bound to a float or is not bound. The notebook binds \<^verbatim>\<open>d1\<close> and \<^verbatim>\<open>d2\<close> in the
  cell \<^verbatim>\<open>d1, d2 = d(sigma, S, K, r, t)\<close>, after the functions are defined.
\<close>

type_synonym globals = "string \<rightharpoonup> float64"

text \<open>
  \<^verbatim>\<open>
  def delta(d_1, contract_type):
      if contract_type == 'c':
          return norm.cdf(d1)
      if contract_type == 'p':
          return -norm.cdf(-d_1)
  \<close>
  The parameter is \<^verbatim>\<open>d_1\<close>; the first branch reads \<^verbatim>\<open>d1\<close>, which is no local name of
  \<^verbatim>\<open>delta\<close> and is looked up among the globals when the branch runs (\<^verbatim>\<open>NameError\<close> when
  it is not bound). A function that reaches its end returns \<^verbatim>\<open>None\<close>: the result is
  \<open>None\<close> then, and \<open>Some x\<close> for a float \<open>x\<close>. The contract type is the string the
  caller passes, \<^verbatim>\<open>'c'\<close> for a call and \<^verbatim>\<open>'p'\<close> for a put; a value of another type
  compares unequal to both literals, as any third string does.
\<close>

definition delta :: "norm_dist \<Rightarrow> globals \<Rightarrow> float64 \<Rightarrow> string \<Rightarrow> error + float64 option" where
  "delta n g d_1 contract_type =
     (if contract_type = ''c'' then
        (case g ''d1'' of
           None \<Rightarrow> Inl (NameError ''d1'')
         | Some d1 \<Rightarrow> Inr (Some (norm_cdf n d1)))
      else if contract_type = ''p'' then Inr (Some (- norm_cdf n (- d_1)))
      else Inr None)"

text \<open>
  \<^verbatim>\<open>
  def gamma(d2, S, K, sigma, r, t):
      return( K * np.exp(-r * t) * (norm.pdf(d2) / (S**2 * sigma * np.sqrt(t) )))
  \<close>
  \<^verbatim>\<open>S**2\<close> is the one operation that can raise; what runs before it has no effect.
\<close>

definition gamma ::
  "norm_dist \<Rightarrow> float64 \<Rightarrow> float64 \<Rightarrow> float64 \<Rightarrow> float64 \<Rightarrow> float64 \<Rightarrow> float64 \<Rightarrow> error + float64" where
  "gamma n d2 S K sigma r t =
     (case pow2 S of
        Inl e \<Rightarrow> Inl e
      | Inr sq \<Rightarrow> Inr (K * np_exp (- r * t) * (norm_pdf n d2 / (sq * sigma * np_sqrt t))))"

text \<open>
  \<^verbatim>\<open>
  def theta(d1, d2, S, K, sigma, r, t, contract_type):
      if contract_type == 'c':
          theta = -S * sigma * norm.pdf(d1) / (2 * np.sqrt(t)) - r * K * np.exp(-r * t) * norm.cdf(d2)
      if contract_type == 'p':
          theta = -S * sigma * norm.pdf(-d1) / (2 * np.sqrt(t)) + r * K * np.exp(-r * t) * norm.cdf(-d2)

      return theta
  \<close>
  \<^verbatim>\<open>theta\<close> is assigned in the body, so inside the function it is a local name, not
  bound until one of the two assignments runs; \<^verbatim>\<open>return theta\<close> raises
  \<^verbatim>\<open>UnboundLocalError\<close> when neither ran. The local is threaded through the two
  statements as an option. No arithmetic of the body raises: an overflow is an
  infinity.
\<close>

definition theta ::
  "norm_dist \<Rightarrow> float64 \<Rightarrow> float64 \<Rightarrow> float64 \<Rightarrow> float64 \<Rightarrow> float64 \<Rightarrow> float64 \<Rightarrow> float64 \<Rightarrow> string \<Rightarrow> error + float64" where
  "theta n d1 d2 S K sigma r t contract_type =
     (let theta0 = None;
          theta1 =
            (if contract_type = ''c'' then
               Some (- S * sigma * norm_pdf n d1 / (Fin 2 * np_sqrt t)
                     - r * K * np_exp (- r * t) * norm_cdf n d2)
             else theta0);
          theta2 =
            (if contract_type = ''p'' then
               Some (- S * sigma * norm_pdf n (- d1) / (Fin 2 * np_sqrt t)
                     + r * K * np_exp (- r * t) * norm_cdf n (- d2))
             else theta1)
      in case theta2 of
           None \<Rightarrow> Inl (UnboundLocalError ''theta'')
         | Some v \<Rightarrow> Inr v)"

section \<open>Results within the range of the format\<close>

text \<open>
  An exact result that the format holds without overflow and without underflow: zero,
  or a magnitude above \<open>unf\<close>, and below \<open>ovf\<close>.
\<close>

definition in_range :: "real \<Rightarrow> bool" where
  "in_range x \<longleftrightarrow> (x = 0 \<or> unf < \<bar>x\<bar>) \<and> \<bar>x\<bar> < ovf"

text \<open>
  The conditions under which a run of each function stays within the range: one
  conjunct for each product, quotient, square and exponential of the body, and a bound
  below \<open>ovf\<close> for each sum, in the order of evaluation.
\<close>

definition d_in_range :: "real \<Rightarrow> real \<Rightarrow> real \<Rightarrow> real \<Rightarrow> real \<Rightarrow> bool" where
  "d_in_range sigma S K r t \<longleftrightarrow>
     in_range (sigma * sqrt t)
     \<and> in_range (1 / (sigma * sqrt t))
     \<and> in_range (S / K)
     \<and> in_range (sigma\<^sup>2)
     \<and> in_range (sigma\<^sup>2 / 2)
     \<and> \<bar>r + sigma\<^sup>2 / 2\<bar> < ovf
     \<and> in_range ((r + sigma\<^sup>2 / 2) * t)
     \<and> \<bar>ln (S / K) + (r + sigma\<^sup>2 / 2) * t\<bar> < ovf
     \<and> in_range ((ln (S / K) + (r + sigma\<^sup>2 / 2) * t) / (sigma * sqrt t))
     \<and> \<bar>(ln (S / K) + (r + sigma\<^sup>2 / 2) * t) / (sigma * sqrt t) - sigma * sqrt t\<bar> < ovf"

text \<open>
  For the prices \<open>p1\<close> and \<open>p2\<close> stand for the two values of the cumulative
  distribution that the body multiplies with \<open>S\<close> and with \<open>K\<close>.
\<close>

definition price_in_range :: "real \<Rightarrow> real \<Rightarrow> real \<Rightarrow> real \<Rightarrow> real \<Rightarrow> real \<Rightarrow> bool" where
  "price_in_range S K r t p1 p2 \<longleftrightarrow>
     in_range (p1 * S)
     \<and> in_range (p2 * K)
     \<and> in_range (r * t)
     \<and> in_range (exp (- (r * t)))
     \<and> in_range (p2 * K * exp (- (r * t)))
     \<and> \<bar>p1 * S - p2 * K * exp (- (r * t))\<bar> < ovf"

definition gamma_in_range :: "real \<Rightarrow> real \<Rightarrow> real \<Rightarrow> real \<Rightarrow> real \<Rightarrow> real \<Rightarrow> bool" where
  "gamma_in_range p S K sigma r t \<longleftrightarrow>
     in_range (S\<^sup>2)
     \<and> in_range (r * t)
     \<and> in_range (exp (- (r * t)))
     \<and> in_range (K * exp (- (r * t)))
     \<and> in_range (S\<^sup>2 * sigma)
     \<and> in_range (S\<^sup>2 * sigma * sqrt t)
     \<and> in_range (p / (S\<^sup>2 * sigma * sqrt t))
     \<and> in_range (K * exp (- (r * t)) * (p / (S\<^sup>2 * sigma * sqrt t)))"

text \<open>
  For \<open>theta\<close>, \<open>p\<close> is the value of the density and \<open>c\<close> the value of the cumulative
  distribution that the branch uses.
\<close>

definition theta_in_range :: "real \<Rightarrow> real \<Rightarrow> real \<Rightarrow> real \<Rightarrow> real \<Rightarrow> real \<Rightarrow> real \<Rightarrow> bool" where
  "theta_in_range S K sigma r t p c \<longleftrightarrow>
     in_range (S * sigma)
     \<and> in_range (S * sigma * p)
     \<and> in_range (2 * sqrt t)
     \<and> in_range (S * sigma * p / (2 * sqrt t))
     \<and> in_range (r * K)
     \<and> in_range (r * t)
     \<and> in_range (exp (- (r * t)))
     \<and> in_range (r * K * exp (- (r * t)))
     \<and> in_range (r * K * exp (- (r * t)) * c)
     \<and> \<bar>S * sigma * p / (2 * sqrt t)\<bar> + \<bar>r * K * exp (- (r * t)) * c\<bar> < ovf"

section \<open>Arithmetic within the range\<close>

text \<open>
  On finite operands whose exact result is within the range, every operation of the
  model computes that result. These facts carry the formulas below from the floats to
  the reals.
\<close>

lemma real_of_eq_None: "real_of a = None \<longleftrightarrow> \<not> is_finite a"
  by (simp add: real_of_def)

lemma unf_pos: "0 < unf"
  by (simp add: unf_def)

lemma one_less_ovf: "1 < ovf"
  by (simp add: ovf_def)

lemma in_range_zero [simp]: "in_range 0"
  using one_less_ovf by (simp add: in_range_def)

lemma in_range_minus [simp]: "in_range (- x) = in_range x"
  by (simp add: in_range_def)

lemma in_range_bounds: "1 / 1000000 \<le> \<bar>x\<bar> \<Longrightarrow> \<bar>x\<bar> \<le> 1000000 \<Longrightarrow> in_range x"
proof -
  assume lo: "1 / 1000000 \<le> \<bar>x\<bar>" and hi: "\<bar>x\<bar> \<le> 1000000"
  have "unf < 1 / 1000000"
    by (simp add: unf_def)
  moreover have "1000000 < ovf"
    by (simp add: ovf_def)
  ultimately show ?thesis
    using lo hi by (simp add: in_range_def)
qed

lemma below_ovf: "x \<le> 1000000 \<Longrightarrow> x < ovf"
  by (simp add: ovf_def)

lemma is_finite_finite_of [simp]: "is_finite (finite_of s x)"
  by (simp add: finite_of_def)

lemma val_finite_of [simp]: "val (finite_of s x) = x"
  by (simp add: finite_of_def)

lemma is_finite_inf_of [simp]: "\<not> is_finite (inf_of s)"
  by (simp add: inf_of_def)

lemma is_finite_fl [simp]: "in_range x \<Longrightarrow> is_finite (fl s x)"
  by (auto simp: fl_def in_range_def)

lemma val_fl [simp]: "in_range x \<Longrightarrow> val (fl s x) = x"
  by (auto simp: fl_def in_range_def)

lemma is_finite_uminus [simp]: "is_finite (- a) = is_finite a"
  by (cases a) (simp_all add: uminus_float64_def)

lemma val_uminus [simp]: "val (- a) = - val a"
  by (cases a) (simp_all add: uminus_float64_def)

lemma is_finite_plus [simp]:
  "is_finite a \<Longrightarrow> is_finite b \<Longrightarrow> \<bar>val a + val b\<bar> < ovf \<Longrightarrow> is_finite (a + b)"
  by (cases a; cases b) (simp_all add: plus_float64_def)

lemma val_plus [simp]:
  "is_finite a \<Longrightarrow> is_finite b \<Longrightarrow> \<bar>val a + val b\<bar> < ovf \<Longrightarrow> val (a + b) = val a + val b"
  by (cases a; cases b) (simp_all add: plus_float64_def)

lemma is_finite_minus [simp]:
  "is_finite a \<Longrightarrow> is_finite b \<Longrightarrow> \<bar>val a - val b\<bar> < ovf \<Longrightarrow> is_finite (a - b)"
  by (simp add: minus_float64_def)

lemma val_minus [simp]:
  "is_finite a \<Longrightarrow> is_finite b \<Longrightarrow> \<bar>val a - val b\<bar> < ovf \<Longrightarrow> val (a - b) = val a - val b"
  by (simp add: minus_float64_def)

lemma is_finite_times [simp]:
  "is_finite a \<Longrightarrow> is_finite b \<Longrightarrow> in_range (val a * val b) \<Longrightarrow> is_finite (a * b)"
  by (cases a; cases b) (simp_all add: times_float64_def)

lemma val_times [simp]:
  "is_finite a \<Longrightarrow> is_finite b \<Longrightarrow> in_range (val a * val b) \<Longrightarrow> val (a * b) = val a * val b"
  by (cases a; cases b) (simp_all add: times_float64_def)

lemma is_finite_divide [simp]:
  "is_finite a \<Longrightarrow> is_finite b \<Longrightarrow> val b \<noteq> 0 \<Longrightarrow> in_range (val a / val b) \<Longrightarrow> is_finite (a / b)"
  by (cases a; cases b) (simp_all add: divide_float64_def)

lemma val_divide [simp]:
  "is_finite a \<Longrightarrow> is_finite b \<Longrightarrow> val b \<noteq> 0 \<Longrightarrow> in_range (val a / val b)
   \<Longrightarrow> val (a / b) = val a / val b"
  by (cases a; cases b) (simp_all add: divide_float64_def)

lemma pow2_in_range:
  "is_finite a \<Longrightarrow> in_range ((val a)\<^sup>2) \<Longrightarrow> pow2 a = Inr (fl False ((val a)\<^sup>2))"
  by (cases a) (simp_all add: pow2_def times_float64_def power2_eq_square in_range_def)

lemma is_finite_sqrt [simp]: "is_finite a \<Longrightarrow> is_finite (np_sqrt a) = (0 \<le> val a)"
  by (cases a) auto

lemma val_sqrt [simp]: "is_finite a \<Longrightarrow> 0 \<le> val a \<Longrightarrow> val (np_sqrt a) = sqrt (val a)"
  by (cases a) auto

lemma is_finite_log [simp]: "is_finite a \<Longrightarrow> is_finite (np_log a) = (0 < val a)"
  by (cases a) auto

lemma val_log [simp]: "is_finite a \<Longrightarrow> 0 < val a \<Longrightarrow> val (np_log a) = ln (val a)"
  by (cases a) auto

lemma is_finite_exp [simp]: "is_finite a \<Longrightarrow> in_range (exp (val a)) \<Longrightarrow> is_finite (np_exp a)"
  by (cases a) auto

lemma val_exp [simp]: "is_finite a \<Longrightarrow> in_range (exp (val a)) \<Longrightarrow> val (np_exp a) = exp (val a)"
  by (cases a) auto

lemma is_finite_cdf [simp]: "is_finite a \<Longrightarrow> is_finite (norm_cdf n a)"
  by (cases a) auto

lemma val_cdf [simp]: "is_finite a \<Longrightarrow> val (norm_cdf n a) = cdf n (val a)"
  by (cases a) auto

lemma is_finite_pdf [simp]: "is_finite a \<Longrightarrow> is_finite (norm_pdf n a)"
  by (cases a) auto

lemma val_pdf [simp]: "is_finite a \<Longrightarrow> val (norm_pdf n a) = pdf n (val a)"
  by (cases a) auto

lemma real_of_plus:
  "is_finite a \<Longrightarrow> is_finite b \<Longrightarrow> \<bar>val a + val b\<bar> < ovf
   \<Longrightarrow> real_of (a + b) = Some (val a + val b)"
  by (simp add: real_of_def)

lemma real_of_minus:
  "is_finite a \<Longrightarrow> is_finite b \<Longrightarrow> \<bar>val a - val b\<bar> < ovf
   \<Longrightarrow> real_of (a - b) = Some (val a - val b)"
  by (simp add: real_of_def)

text \<open>An infinity or NaN among the operands stays one in a sum, a difference and a product.\<close>

lemma is_finite_plusD: "is_finite (a + b) \<Longrightarrow> is_finite a \<and> is_finite b"
  by (cases a; cases b) (simp_all add: plus_float64_def split: if_splits)

lemma is_finite_minusD: "is_finite (a - b) \<Longrightarrow> is_finite a \<and> is_finite b"
  using is_finite_plusD [of a "- b"] by (simp add: minus_float64_def)

lemma is_finite_timesD: "is_finite (a * b) \<Longrightarrow> is_finite a \<and> is_finite b"
  by (cases a; cases b) (simp_all add: times_float64_def inf_of_def split: if_splits)

text \<open>A product of finite values that is exactly zero is a zero, and one over a zero is not finite.\<close>

lemma is_zero_times:
  "is_finite a \<Longrightarrow> is_finite b \<Longrightarrow> val a * val b = 0 \<Longrightarrow> is_zero (a * b)"
  using one_less_ovf
  by (cases a; cases b) (auto simp: times_float64_def fl_def finite_of_def)

lemma one_over_zero: "is_zero b \<Longrightarrow> \<not> is_finite (Fin 1 / b)"
  by (cases b) (simp_all add: divide_float64_def)

text \<open>
  The exponential of -1 lies between 1/3 and 1, and the exponential of 1000 is beyond
  the range.
\<close>

lemma exp_minus_one_bounds: "1 / 3 \<le> exp (- 1 :: real)" "exp (- 1 :: real) \<le> 1"
proof -
  have "exp (- 1 :: real) = 1 / exp 1"
    by (simp add: exp_minus inverse_eq_divide)
  moreover have "1 / 3 \<le> 1 / exp (1 :: real)"
    using exp_le by (intro divide_left_mono) simp_all
  ultimately show "1 / 3 \<le> exp (- 1 :: real)" by simp
  show "exp (- 1 :: real) \<le> 1" by simp
qed

lemma exp_1000_overflows: "ovf \<le> exp 1000"
proof -
  have "(5 :: real) \<le> exp 2"
    using exp_lower_Taylor_quadratic [of "2 :: real"] by simp
  then have "(5 :: real) ^ 500 \<le> exp 2 ^ 500"
    by (intro power_mono) simp_all
  moreover have "exp (1000 :: real) = exp 2 ^ 500"
    using exp_of_nat_mult [of 500 "2 :: real"] by simp
  moreover have "ovf \<le> (5 :: real) ^ 500"
    by (simp add: ovf_def)
  ultimately show ?thesis by simp
qed

text \<open>The uniform distribution has the two properties assumed of the normal one.\<close>

lemma uniform_dist_symmetric: "cdf uniform_dist x + cdf uniform_dist (- x) = 1"
  by (simp add: uniform_dist_def max_def min_def)

lemma uniform_dist_range: "0 \<le> cdf uniform_dist x \<and> cdf uniform_dist x \<le> 1"
  by (simp add: uniform_dist_def max_def min_def)

section \<open>The auxiliary quantities: formula, range and missing validation\<close>


text \<open>
  At \<^verbatim>\<open>d(1e-200, 1.0, 1.0, 0.0, 1.0)\<close> the square underflows to zero, and \<open>d1\<close> is \<^verbatim>\<open>0.0\<close>
  where the formula gives half the volatility.
\<close>

lemma d_square_underflows:
  "d (Fin (1 / 10 ^ 200)) (Fin 1) (Fin 1) (Fin 0) (Fin 1) = Inr (Fin 0, Fin (- (1 / 10 ^ 200)))"
  by (simp add: d_def truediv_def pow2_def Let_def divide_float64_def times_float64_def
      plus_float64_def minus_float64_def uminus_float64_def finite_of_def inf_of_def fl_def
      ovf_def unf_def)


lemma d_in_range_example: "d_in_range 2 3 3 1 4"
  by (simp add: d_in_range_def in_range_bounds below_ovf)


text \<open>
  Claim C3 says that \<open>d\<close> reports an \<^verbatim>\<open>InvalidInput\<close> failure for a zero volatility, a zero
  time or a non-positive spot or strike, and never returns an infinity or NaN. The
  function validates nothing. At \<^verbatim>\<open>d(0.0, 1.0, 1.0, 1.0, 1.0)\<close> the divisor
  \<^verbatim>\<open>sigma * np.sqrt(t)\<close> is \<^verbatim>\<open>0.0\<close>, numpy's division gives \<^verbatim>\<open>inf\<close>, and the call
  returns \<^verbatim>\<open>(inf, inf)\<close>.
\<close>

theorem d_zero_sigma_returns_inf:
  "d (Fin 0) (Fin 1) (Fin 1) (Fin 1) (Fin 1) = Inr (PInf, PInf)"
  by (simp add: d_def truediv_def pow2_def Let_def divide_float64_def times_float64_def
      plus_float64_def minus_float64_def uminus_float64_def finite_of_def inf_of_def fl_def
      ovf_def unf_def)

text \<open>
  A zero strike raises \<^verbatim>\<open>ZeroDivisionError\<close>, whatever the other arguments; a negative
  spot with a negative strike has a positive ratio, and \<open>d\<close> returns ordinary numbers.
\<close>

lemma d_zero_strike: "d sigma S (Fin 0) r t = Inl ZeroDivisionError"
  by (simp add: d_def truediv_def)

lemma d_negative_spot_and_strike:
  "d (Fin 1) (Fin (- 2)) (Fin (- 2)) (Fin 0) (Fin 1) = Inr (Fin (1 / 2), Fin (- (1 / 2)))"
  by (simp add: d_def truediv_def pow2_def Let_def divide_float64_def times_float64_def
      plus_float64_def minus_float64_def uminus_float64_def finite_of_def inf_of_def fl_def
      ovf_def unf_def)

lemma inverse_not_finite:
  assumes "sigma = 0 \<or> t \<le> 0"
  shows "\<not> is_finite (Fin 1 / (Fin sigma * np_sqrt (Fin t)))"
proof (cases "t < 0")
  case True
  then show ?thesis by (simp add: times_float64_def divide_float64_def)
next
  case False
  with assms have "val (Fin sigma) * val (np_sqrt (Fin t)) = 0"
    by auto
  moreover have "is_finite (np_sqrt (Fin t))"
    using False by simp
  ultimately have "is_zero (Fin sigma * np_sqrt (Fin t))"
    by (intro is_zero_times) simp_all
  then show ?thesis
    by (rule one_over_zero)
qed

lemma log_not_finite:
  assumes "K \<noteq> 0" "S / K \<le> 0"
  shows "\<not> is_finite (np_log (Fin S / Fin K))"
  using assms unf_pos
  by (auto simp: divide_float64_def fl_def finite_of_def inf_of_def)

text \<open>
  Claim C3 as amended. When \<open>d\<close> is called with a zero volatility, a zero time, or a
  spot or strike that is zero or negative, it validates nothing and has three
  outcomes. A zero strike raises \<^verbatim>\<open>ZeroDivisionError\<close>. Otherwise a square \<^verbatim>\<open>sigma**2\<close>
  beyond the range raises \<^verbatim>\<open>OverflowError\<close>. Otherwise \<open>d\<close> returns a pair as an
  ordinary result, and neither component is a finite number (each is an infinity or
  NaN), except when spot and strike are both negative with a non-zero volatility and a
  positive time, where the ratio \<open>S/K\<close> is positive.
\<close>

theorem d_no_validation:
  assumes "sigma = 0 \<or> t = 0 \<or> S \<le> 0 \<or> K \<le> 0"
  shows "if K = 0 then d (Fin sigma) (Fin S) (Fin K) (Fin r) (Fin t) = Inl ZeroDivisionError
         else if ovf \<le> sigma\<^sup>2 then
           d (Fin sigma) (Fin S) (Fin K) (Fin r) (Fin t) = Inl OverflowError
         else (\<exists>d1 d2. d (Fin sigma) (Fin S) (Fin K) (Fin r) (Fin t) = Inr (d1, d2)
                 \<and> (S < 0 \<and> K < 0 \<and> sigma \<noteq> 0 \<and> 0 < t
                     \<or> real_of d1 = None \<and> real_of d2 = None))"
proof (cases "K = 0")
  case True
  then show ?thesis by (simp add: d_def truediv_def)
next
  case K: False
  show ?thesis
  proof (cases "ovf \<le> sigma\<^sup>2")
    case True
    then show ?thesis using K by (simp add: d_def truediv_def pow2_def power2_eq_square)
  next
    case False
    define inv where "inv = Fin 1 / (Fin sigma * np_sqrt (Fin t))"
    define num where
      "num = np_log (Fin S / Fin K) + (Fin r + Fin sigma * Fin sigma / Fin 2) * Fin t"
    define den where "den = Fin sigma * np_sqrt (Fin t)"
    have eq: "d (Fin sigma) (Fin S) (Fin K) (Fin r) (Fin t) = Inr (inv * num, inv * num - den)"
      using K False
      by (simp add: d_def truediv_def pow2_def power2_eq_square Let_def inv_def num_def den_def)
    show ?thesis
    proof (cases "S < 0 \<and> K < 0 \<and> sigma \<noteq> 0 \<and> 0 < t")
      case True
      then show ?thesis using K False eq by simp
    next
      case other: False
      with assms K have "sigma = 0 \<or> t \<le> 0 \<or> S / K \<le> 0"
        by (auto simp: divide_le_0_iff)
      then have "\<not> is_finite inv \<or> \<not> is_finite (np_log (Fin S / Fin K))"
        using inverse_not_finite log_not_finite K unfolding inv_def by blast
      then have "\<not> is_finite inv \<or> \<not> is_finite num"
        unfolding num_def using is_finite_plusD by blast
      then have "\<not> is_finite (inv * num)"
        using is_finite_timesD by blast
      then have "real_of (inv * num) = None \<and> real_of (inv * num - den) = None"
        using is_finite_minusD real_of_eq_None by blast
      then show ?thesis using K False eq by simp
    qed
  qed
qed

theorem d_no_validation_witness:
  "\<exists>d1 d2. d (Fin 1) (Fin 2) (Fin 3) (Fin 1) (Fin 0) = Inr (d1, d2)
      \<and> real_of d1 = None \<and> real_of d2 = None"
  using d_no_validation [where sigma = 1 and t = 0 and S = 2 and K = 3 and r = 1] one_less_ovf
  by simp

section \<open>The pricer: parity and the unused volatility\<close>


lemma price_terms:
  assumes "price_in_range S K r t p1 p2"
    and "is_finite P1" "val P1 = p1" "is_finite P2" "val P2 = p2"
  shows "is_finite (P1 * Fin S)"
    and "val (P1 * Fin S) = p1 * S"
    and "is_finite (P2 * Fin K * np_exp (- Fin r * Fin t))"
    and "val (P2 * Fin K * np_exp (- Fin r * Fin t)) = p2 * K * exp (- (r * t))"
  using assms by (simp_all add: price_in_range_def)


lemma price_in_range_example:
  "price_in_range 5 3 1 1 (3 / 4) (1 / 4)" "price_in_range 5 3 1 1 (1 / 4) (3 / 4)"
proof -
  obtain e :: real where e: "exp (- 1) = e" "1 / 3 \<le> e" "e \<le> 1"
    using exp_minus_one_bounds by blast
  have r: "in_range e" "in_range (3 * e / 4)" "in_range (9 * e / 4)"
    using e(2,3) by (auto intro!: in_range_bounds)
  have b: "\<bar>15 / 4 - 3 * e / 4\<bar> < ovf" "\<bar>5 / 4 - 9 * e / 4\<bar> < ovf"
    using e(2,3) by (auto intro!: below_ovf)
  show "price_in_range 5 3 1 1 (3 / 4) (1 / 4)"
    using r b by (simp add: price_in_range_def in_range_bounds e(1))
  show "price_in_range 5 3 1 1 (1 / 4) (3 / 4)"
    using r b by (simp add: price_in_range_def in_range_bounds e(1))
qed


text \<open>
  Claim C10. \<open>call_price\<close> and \<open>put_price\<close> take the volatility and never read it: two
  calls that differ in the volatility only return the same price.
\<close>

theorem prices_ignore_sigma:
  "call_price n sigma S K r t d1 d2 = call_price n sigma' S K r t d1 d2
   \<and> put_price n sigma S K r t d1 d2 = put_price n sigma' S K r t d1 d2"
  by (simp add: call_price_def put_price_def)

section \<open>The Greeks: formulas and range\<close>



lemma gamma_in_range_example: "gamma_in_range (pdf uniform_dist 1) 2 3 1 1 1"
proof -
  obtain e :: real where e: "exp (- 1) = e" "1 / 3 \<le> e" "e \<le> 1"
    using exp_minus_one_bounds by blast
  have "in_range e" "in_range (3 * e)" "in_range (3 * e / 16)"
    using e(2,3) by (auto intro!: in_range_bounds)
  then show ?thesis
    by (simp add: gamma_in_range_def uniform_dist_def in_range_bounds e(1))
qed



lemma theta_terms:
  assumes "0 < t" and "theta_in_range S K sigma r t p c"
    and "is_finite P" "val P = p" "is_finite C" "val C = c"
  shows "is_finite (- Fin S * Fin sigma * P / (Fin 2 * np_sqrt (Fin t)))"
    and "val (- Fin S * Fin sigma * P / (Fin 2 * np_sqrt (Fin t))) = - (S * sigma * p) / (2 * sqrt t)"
    and "is_finite (Fin r * Fin K * np_exp (- Fin r * Fin t) * C)"
    and "val (Fin r * Fin K * np_exp (- Fin r * Fin t) * C) = r * K * exp (- (r * t)) * c"
  using assms by (simp_all add: theta_in_range_def)


lemma theta_in_range_example:
  "theta_in_range 2 3 1 1 1 (1 / 4) (1 / 4)" "theta_in_range 2 3 1 1 1 (1 / 4) (3 / 4)"
proof -
  obtain e :: real where e: "exp (- 1) = e" "1 / 3 \<le> e" "e \<le> 1"
    using exp_minus_one_bounds by blast
  have r: "in_range e" "in_range (3 * e)" "in_range (3 * e / 4)" "in_range (9 * e / 4)"
    using e(2,3) by (auto intro!: in_range_bounds)
  have b: "1 / 4 + 3 * e / 4 < ovf" "1 / 4 + 9 * e / 4 < ovf"
    using e(2,3) by (auto intro!: below_ovf)
  show "theta_in_range 2 3 1 1 1 (1 / 4) (1 / 4)"
    using r b e(2,3) by (simp add: theta_in_range_def in_range_bounds e(1))
  show "theta_in_range 2 3 1 1 1 (1 / 4) (3 / 4)"
    using r b e(2,3) by (simp add: theta_in_range_def in_range_bounds e(1))
qed


section \<open>The Greeks: the contract type\<close>

text \<open>
  Claim C2 says that \<open>delta\<close> and \<open>theta\<close> fail with \<^verbatim>\<open>InvalidContractType\<close> for a
  contract type other than the two known ones. The notebook has no such error. At
  \<^verbatim>\<open>delta(0.0, 'x')\<close> both tests fail, the function reaches its end and returns \<^verbatim>\<open>None\<close>
  without raising.
\<close>

theorem delta_unknown_type_returns_None:
  "delta uniform_dist Map.empty (Fin 0) ''x'' = Inr None"
  by (simp add: delta_def)

text \<open>
  Claim C2 as amended. For every contract type other than \<^verbatim>\<open>'c'\<close> and \<^verbatim>\<open>'p'\<close>, whatever
  the other arguments and the globals, \<open>delta\<close> raises nothing and returns \<^verbatim>\<open>None\<close>, and
  \<open>theta\<close> raises \<^verbatim>\<open>UnboundLocalError\<close> for its local \<^verbatim>\<open>theta\<close>, which no branch assigned.
  Neither returns a number.
\<close>

theorem unknown_contract_type:
  assumes "contract_type \<noteq> ''c''" "contract_type \<noteq> ''p''"
  shows "delta n g d_1 contract_type = Inr None
         \<and> theta n d1 d2 S K sigma r t contract_type = Inl (UnboundLocalError ''theta'')"
  using assms by (simp add: delta_def theta_def)

theorem unknown_contract_type_witness:
  "delta uniform_dist [''d1'' \<mapsto> Fin 1] (Fin 1) ''call'' = Inr None
   \<and> theta uniform_dist (Fin 1) (Fin (- 1)) (Fin 2) (Fin 3) (Fin 1) (Fin 1) (Fin 4) ''call''
       = Inl (UnboundLocalError ''theta'')"
  using unknown_contract_type [where contract_type = "''call''"] by simp

section \<open>The Greeks: the global read by the call delta\<close>

text \<open>
  Claim C1 says that \<open>delta\<close> for a call returns the cumulative distribution at the
  argument \<^verbatim>\<open>d_1\<close>. The call branch reads the global \<^verbatim>\<open>d1\<close> instead. With the global bound
  to \<^verbatim>\<open>0.0\<close>, \<^verbatim>\<open>delta(1.0, 'c')\<close> returns the distribution at 0, not at 1; with the global not
  bound, the call raises \<^verbatim>\<open>NameError\<close>.
\<close>

theorem delta_call_reads_global_d1:
  "delta n [''d1'' \<mapsto> Fin 0] (Fin 1) ''c'' = Inr (Some (Fin (cdf n 0)))
   \<and> delta n Map.empty (Fin 1) ''c'' = Inl (NameError ''d1'')"
  by (simp add: delta_def)

text \<open>
  Claim C8 says that \<open>delta\<close>, \<open>gamma\<close> and \<open>theta\<close> depend on their arguments only. \<open>gamma\<close>
  and \<open>theta\<close> read no global but \<^verbatim>\<open>np\<close> and \<^verbatim>\<open>norm\<close>. The call branch of \<open>delta\<close> reads
  \<^verbatim>\<open>d1\<close>: the same call, with the same argument, raises \<^verbatim>\<open>NameError\<close> before the global is
  bound and returns a number after.
\<close>

theorem delta_call_depends_on_globals:
  "delta n Map.empty x ''c'' \<noteq> delta n [''d1'' \<mapsto> y] x ''c''"
  by (simp add: delta_def)

text \<open>
  Claim C9 says that the call delta lies between 0 and 1, the put delta between -1 and
  0, and that their difference at the same argument is 1. For the uniform
  distribution, which has the two properties the claim assumes, and the global \<^verbatim>\<open>d1\<close>
  bound to \<^verbatim>\<open>0.0\<close>, the calls \<^verbatim>\<open>delta(1.0, 'c')\<close> and \<^verbatim>\<open>delta(1.0, 'p')\<close> return 1/2 and -1/4:
  the difference is 3/4.
\<close>

theorem delta_difference_with_global_d1:
  "delta uniform_dist [''d1'' \<mapsto> Fin 0] (Fin 1) ''c'' = Inr (Some (Fin (1 / 2)))
   \<and> delta uniform_dist [''d1'' \<mapsto> Fin 0] (Fin 1) ''p'' = Inr (Some (Fin (- (1 / 4))))
   \<and> Fin (1 / 2) - Fin (- (1 / 4)) = Fin (3 / 4)"
  by (simp add: delta_def uniform_dist_def uminus_float64_def minus_float64_def
      plus_float64_def finite_of_def ovf_def)

text \<open>
  When the global \<^verbatim>\<open>d1\<close> is bound to the very value that is passed as the argument, as in
  the notebook's own cell \<^verbatim>\<open>delta(d1, 'c')\<close>, the bounds and the difference hold.
\<close>

lemma delta_bounds_when_global_is_argument:
  assumes "\<forall>x. 0 \<le> cdf n x \<and> cdf n x \<le> 1" "\<forall>x. cdf n x + cdf n (- x) = 1"
    and "g ''d1'' = Some (Fin x)"
  shows "\<exists>c p. delta n g (Fin x) ''c'' = Inr (Some c) \<and> delta n g (Fin x) ''p'' = Inr (Some p)
           \<and> is_finite c \<and> 0 \<le> val c \<and> val c \<le> 1
           \<and> is_finite p \<and> - 1 \<le> val p \<and> val p \<le> 0
           \<and> real_of (c - p) = Some 1"
proof -
  have "\<bar>cdf n x - - cdf n (- x)\<bar> < ovf"
    using assms(2) one_less_ovf by (simp add: add.commute)
  then show ?thesis
    using assms by (simp add: delta_def real_of_def)
qed

end
